theory Spec2Isabelle
  imports Complex_Main
begin

section \<open>Data model of MainComponent\<close>

text \<open>
  The C++ code computes with \<open>float\<close> and \<open>double\<close>. The embedding uses \<open>real\<close>: every
  formula is the exact-arithmetic reading of the source expression, with the operations in
  the source's order. IEEE rounding, infinities and NaN are outside the model; where the
  source divides, the theorems below that speak about the quotient assume a non-zero
  denominator (HOL's \<open>x / 0 = 0\<close> is never relied on).

  Collaborators whose implementation is not part of the sources read here (the screw,
  chop, delay, flanger, phaser, brake and thumbnail components, and the audio engine) are
  modelled by what \<open>MainComponent\<close> exchanges with them: a getter returns the value last
  stored by the matching setter, and a fire-and-forget call is appended to the
  collaborator's call log. A pointer that the source tests before use is an \<open>option\<close>
  (\<open>None\<close> is the null pointer); the screw, chop, library and control bar components,
  which the source never tests, are taken to be there.
\<close>

datatype error = NullPointerDereference | UndefinedConversion

datatype PlayState = Stopped | Playing

text \<open>The SDL enumerators the two \<open>switch\<close> statements name; everything else is \<open>Other\<close>.\<close>

datatype gamepad_button = SOUTH | DPAD_UP | DPAD_RIGHT | DPAD_DOWN | OtherButton int

datatype gamepad_axis =
  RIGHT_TRIGGER | LEFT_TRIGGER | LEFTX | LEFTY | RIGHTX | RIGHTY | OtherAxis int

datatype thumbnail_call = SetFile string | SetSpeedRatio real

datatype delay_call = SetDelayTime real | SetTempo real | DelayRampMixLevel bool

datatype flanger_call = SetSpeed real | FlangerSetDepth real | SetWidth real | FlangerRampMixLevel bool

datatype phaser_call = SetRate real | PhaserSetDepth real | SetFeedback real

datatype brake_call = StartSpringAnimation | SetBrakeValue real

text \<open>
  What \<open>handleFileSelection\<close> asks of its \<open>juce::File\<close> argument and of the engine and the
  library about that file.
\<close>

record audio_file =
  existsAsFile :: bool
  isValid :: bool            \<comment> \<open>\<open>tracktion::AudioFile (edit.engine, file).isValid()\<close>\<close>
  fileNameWithoutExtension :: string
  audioLength :: real        \<comment> \<open>\<open>audioFile.getLength()\<close>, seconds\<close>
  bpmForFile :: real         \<comment> \<open>\<open>libraryComponent->getBPMForFile (file)\<close>\<close>
  insertWaveClipOk :: bool   \<comment> \<open>whether \<open>insertWaveClip\<close> returns a non-null clip\<close>

record wave_clip =
  clipName :: string
  clipStart :: real          \<comment> \<open>timeline position, seconds\<close>
  clipLength :: real         \<comment> \<open>seconds\<close>
  clipOffset :: real         \<comment> \<open>the clip's internal offset, seconds\<close>
  loopInfoBpm :: "real option"

record main_component =
  baseTempo :: real
  trackOffset :: real
  chopStartTime :: real
  chopReleaseDelay :: real
  timerInterval :: int                         \<comment> \<open>interval last given to \<open>startTimer\<close>, ms\<close>
  playState :: PlayState
  track1 :: "wave_clip list option"            \<comment> \<open>\<open>getOrInsertAudioTrackAt (edit, 0)\<close>\<close>
  track2 :: "wave_clip list option"            \<comment> \<open>\<open>getOrInsertAudioTrackAt (edit, 1)\<close>\<close>
  volumeAndPan1 :: "real option option"        \<comment> \<open>plugin pointer; inside, the volume last set\<close>
  volumeAndPan2 :: "real option option"
  crossfaderValue :: real                      \<comment> \<open>\<open>chopComponent\<close>'s crossfader\<close>
  screwTempo :: real                           \<comment> \<open>\<open>screwComponent->getTempo()\<close>\<close>
  screwBaseTempo :: real
  tempoSetting :: "real option"                \<comment> \<open>result of \<open>tempoSequence.insertTempo\<close> at 0\<close>
  transportPlaying :: bool
  transportPosition :: real
  loopRange :: "(real \<times> real) option"
  playButtonState :: bool
  stopButtonState :: bool
  trackName :: string
  thumbnail :: "thumbnail_call list option"
  delayComponent :: "delay_call list option"
  reverbComponent :: "bool list option"        \<comment> \<open>arguments of \<open>rampMixLevel\<close>\<close>
  flangerComponent :: "flanger_call list option"
  phaserComponent :: "phaser_call list option"
  vinylBrakeComponent :: "(real \<times> brake_call list) option"  \<comment> \<open>brake value, calls\<close>
  leftX :: real                                \<comment> \<open>the four function-local statics\<close>
  leftY :: real
  rightX :: real
  rightY :: real

section \<open>Library helpers used by the source\<close>

text \<open>\<open>juce::jlimit (lowerLimit, upperLimit, valueToConstrain)\<close>.\<close>

definition jlimit :: "real \<Rightarrow> real \<Rightarrow> real \<Rightarrow> real" where
  "jlimit lowerLimit upperLimit v =
     (if v < lowerLimit then lowerLimit else if upperLimit < v then upperLimit else v)"

text \<open>
  \<open>juce::Decibels::gainToDecibels (gain)\<close> with its default \<open>minusInfinityDb = -100\<close>.
\<close>

definition gainToDecibels :: "real \<Rightarrow> real" where
  "gainToDecibels gain = (if gain > 0 then max (- 100) (log 10 gain * 20) else - 100)"

text \<open>
  \<open>static_cast<int>\<close> of a \<open>double\<close>: truncation towards zero. \<open>int\<close> has 32 bits, and the
  conversion is undefined when the truncated value does not fit; the model returns
  \<open>UndefinedConversion\<close> there.
\<close>

definition static_cast_int :: "real \<Rightarrow> error + int" where
  "static_cast_int r =
     (let t = (if 0 \<le> r then \<lfloor>r\<rfloor> else \<lceil>r\<rceil>)
      in if - 2147483648 \<le> t \<and> t \<le> 2147483647 then Inr t else Inl UndefinedConversion)"

definition startTimer :: "int \<Rightarrow> main_component \<Rightarrow> main_component" where
  "startTimer intervalInMilliseconds s = s\<lparr>timerInterval := intervalInMilliseconds\<rparr>"

section \<open>Chop button: press and release\<close>

definition setCrossfaderValue :: "real \<Rightarrow> main_component \<Rightarrow> main_component" where
  "setCrossfaderValue v s = s\<lparr>crossfaderValue := v\<rparr>"

text \<open>
  \<open>chopComponent->onChopButtonPressed\<close>; \<open>now\<close> is the value read from
  \<open>juce::Time::getMillisecondCounterHiRes()\<close>.
\<close>

definition onChopButtonPressed :: "real \<Rightarrow> main_component \<Rightarrow> main_component" where
  "onChopButtonPressed now s =
     (let s1 = s\<lparr>chopStartTime := now\<rparr>;
          currentPosition = crossfaderValue s1
      in setCrossfaderValue (if currentPosition \<le> 0.5 then 1.0 else 0.0) s1)"

text \<open>
  \<open>chopComponent->onChopButtonReleased\<close>. \<open>getChopDurationInMs\<close> belongs to the chop
  component and is taken as a parameter.
\<close>

definition onChopButtonReleased ::
  "(real \<Rightarrow> real) \<Rightarrow> real \<Rightarrow> main_component \<Rightarrow> error + main_component" where
  "onChopButtonReleased getChopDurationInMs now s =
     (let elapsedTime = now - chopStartTime s;
          minimumTime = getChopDurationInMs (screwTempo s)
      in if elapsedTime \<ge> minimumTime
         then (let currentPosition = crossfaderValue s
               in Inr (setCrossfaderValue (if currentPosition \<le> 0.5 then 1.0 else 0.0) s))
         else (let s1 = s\<lparr>chopReleaseDelay := minimumTime - elapsedTime\<rparr>
               in case static_cast_int (chopReleaseDelay s1) of
                    Inl e \<Rightarrow> Inl e
                  | Inr interval \<Rightarrow> Inr (startTimer interval s1)))"

definition rampReverb :: "bool \<Rightarrow> main_component \<Rightarrow> main_component" where
  "rampReverb up s =
     (case reverbComponent s of None \<Rightarrow> s
      | Some cs \<Rightarrow> s\<lparr>reverbComponent := Some (cs @ [up])\<rparr>)"

definition rampDelay :: "bool \<Rightarrow> main_component \<Rightarrow> main_component" where
  "rampDelay up s =
     (case delayComponent s of None \<Rightarrow> s
      | Some cs \<Rightarrow> s\<lparr>delayComponent := Some (cs @ [DelayRampMixLevel up])\<rparr>)"

definition rampFlanger :: "bool \<Rightarrow> main_component \<Rightarrow> main_component" where
  "rampFlanger up s =
     (case flangerComponent s of None \<Rightarrow> s
      | Some cs \<Rightarrow> s\<lparr>flangerComponent := Some (cs @ [FlangerRampMixLevel up])\<rparr>)"

fun gamepadButtonPressed :: "gamepad_button \<Rightarrow> real \<Rightarrow> main_component \<Rightarrow> main_component" where
  "gamepadButtonPressed SOUTH now s =
     (let s1 = s\<lparr>chopStartTime := now\<rparr>;
          currentPosition = crossfaderValue s1
      in setCrossfaderValue (if currentPosition \<le> 0.5 then 1.0 else 0.0) s1)"
| "gamepadButtonPressed DPAD_UP now s = rampReverb True s"
| "gamepadButtonPressed DPAD_RIGHT now s = rampDelay True s"
| "gamepadButtonPressed DPAD_DOWN now s = rampFlanger True s"
| "gamepadButtonPressed (OtherButton b) now s = s"

fun gamepadButtonReleased ::
  "gamepad_button \<Rightarrow> real \<Rightarrow> main_component \<Rightarrow> error + main_component" where
  "gamepadButtonReleased SOUTH now s =
     (let elapsedTime = now - chopStartTime s;
          minimumTime = trackOffset s
      in if elapsedTime \<ge> minimumTime
         then (let currentPosition = crossfaderValue s
               in Inr (setCrossfaderValue (if currentPosition \<le> 0.5 then 1.0 else 0.0) s))
         else (let s1 = s\<lparr>chopReleaseDelay := minimumTime - elapsedTime\<rparr>
               in case static_cast_int (chopReleaseDelay s1) of
                    Inl e \<Rightarrow> Inl e
                  | Inr interval \<Rightarrow> Inr (startTimer interval s1)))"
| "gamepadButtonReleased DPAD_UP now s = Inr (rampReverb False s)"
| "gamepadButtonReleased DPAD_RIGHT now s = Inr (rampDelay False s)"
| "gamepadButtonReleased DPAD_DOWN now s = Inr (rampFlanger False s)"
| "gamepadButtonReleased (OtherButton b) now s = Inr s"

section \<open>The deferred chop release\<close>

text \<open>
  Modelled from the spec: \<open>MainComponent::timerCallback\<close>, which the timer started by a
  short release calls, is not in the sources. Spec 4.2 says of the deferred action: "on
  firing, performs the toggle". The toggle is the one of the press and release handlers.
\<close>

definition timerCallback :: "main_component \<Rightarrow> main_component" where
  "timerCallback s =
     (let currentPosition = crossfaderValue s
      in setCrossfaderValue (if currentPosition \<le> 0.5 then 1.0 else 0.0) s)"

text \<open>
  Modelled from the spec: the scheduler behind \<open>startTimer\<close> is not in the sources. Spec 4.2
  and 6 give it as \<open>scheduleOnce (delayMs, callback)\<close>, "a one-shot deferred action":
  \<open>afterStartTimer t s\<close> is the component \<open>t\<close> ms after \<open>startTimer\<close> left it as \<open>s\<close>, no
  other event arriving. Before the interval has passed nothing has run; from then on the
  callback has run, once.
\<close>

definition afterStartTimer :: "int \<Rightarrow> main_component \<Rightarrow> main_component" where
  "afterStartTimer t s = (if t < timerInterval s then s else timerCallback s)"

section \<open>Crossfader gains\<close>

definition setTrackVolume :: "int \<Rightarrow> real \<Rightarrow> main_component \<Rightarrow> main_component" where
  "setTrackVolume trackIndex gainDB s =
     (if trackIndex = 0 \<and> volumeAndPan1 s \<noteq> None then s\<lparr>volumeAndPan1 := Some (Some gainDB)\<rparr>
      else if trackIndex = 1 \<and> volumeAndPan2 s \<noteq> None then s\<lparr>volumeAndPan2 := Some (Some gainDB)\<rparr>
      else s)"

text \<open>
  The pair \<open>(gainDB1, gainDB2)\<close> that \<open>updateCrossfader\<close> computes from the crossfader
  position, before it hands the two values to \<open>setTrackVolume\<close>.
\<close>

definition crossfaderGains :: "real \<Rightarrow> real \<times> real" where
  "crossfaderGains position =
     (let minDB = - 60.0;
          gainTrack1 = cos (position * (pi / 2));
          gainTrack2 = sin (position * (pi / 2));
          gainDB1 = (if gainTrack1 \<le> 0.0 then minDB else gainToDecibels gainTrack1);
          gainDB2 = (if gainTrack2 \<le> 0.0 then minDB else gainToDecibels gainTrack2)
      in (gainDB1, gainDB2))"

definition updateCrossfader :: "main_component \<Rightarrow> main_component" where
  "updateCrossfader s =
     (let position = crossfaderValue s;
          (gainDB1, gainDB2) = crossfaderGains position
      in setTrackVolume 1 gainDB2 (setTrackVolume 0 gainDB1 s))"

section \<open>Tempo\<close>

definition pushThumbnail :: "thumbnail_call \<Rightarrow> main_component \<Rightarrow> main_component" where
  "pushThumbnail c s =
     (case thumbnail s of None \<Rightarrow> s | Some cs \<Rightarrow> s\<lparr>thumbnail := Some (cs @ [c])\<rparr>)"

definition pushDelay :: "delay_call \<Rightarrow> main_component \<Rightarrow> main_component" where
  "pushDelay c s =
     (case delayComponent s of None \<Rightarrow> s | Some cs \<Rightarrow> s\<lparr>delayComponent := Some (cs @ [c])\<rparr>)"

text \<open>
  \<open>edit.tempoSequence.insertTempo (0)\<close> followed by \<open>setBpm\<close> when the setting is not null.
\<close>

definition setSequenceBpm :: "real \<Rightarrow> main_component \<Rightarrow> main_component" where
  "setSequenceBpm bpm s =
     (case tempoSetting s of None \<Rightarrow> s | Some b \<Rightarrow> s\<lparr>tempoSetting := Some bpm\<rparr>)"

definition updateTempo :: "main_component \<Rightarrow> main_component" where
  "updateTempo s =
     (let newBpm = screwTempo s;
          s1 = setSequenceBpm newBpm s;
          ratio = baseTempo s1 / newBpm;
          s2 = pushThumbnail (SetSpeedRatio ratio) s1
      in pushDelay (SetTempo newBpm) s2)"

text \<open>\<open>screwComponent->onTempoChanged\<close>, installed by the constructor.\<close>

definition onTempoChanged :: "real \<Rightarrow> main_component \<Rightarrow> main_component" where
  "onTempoChanged tempo s = pushDelay (SetTempo tempo) (updateTempo s)"

section \<open>Transport\<close>

text \<open>
  \<open>EngineHelpers::togglePlay (edit)\<close> is the engine's example helper: it stops a playing
  transport and starts a stopped one.
\<close>

definition togglePlay :: "main_component \<Rightarrow> main_component" where
  "togglePlay s = s\<lparr>transportPlaying := \<not> transportPlaying s\<rparr>"

definition play :: "main_component \<Rightarrow> main_component" where
  "play s =
     (let s1 = togglePlay s;
          isPlaying = transportPlaying s1
      in s1\<lparr>playButtonState := isPlaying, stopButtonState := \<not> isPlaying,
            playState := (if isPlaying then Playing else Stopped)\<rparr>)"

definition transportStop :: "main_component \<Rightarrow> main_component" where
  "transportStop s = s\<lparr>transportPlaying := False\<rparr>"

text \<open>
  \<open>EngineHelpers::loopAroundClip\<close> is the engine's example helper: it sets the loop range
  to the clip's time range, moves the transport to the start and starts it (the caller
  stops it again in its next statement).
\<close>

definition loopAroundClip :: "wave_clip \<Rightarrow> main_component \<Rightarrow> main_component" where
  "loopAroundClip clip s =
     s\<lparr>loopRange := Some (clipStart clip, clipStart clip + clipLength clip),
       transportPosition := 0, transportPlaying := True\<rparr>"

section \<open>Loading a file\<close>

text \<open>
  \<open>MainComponent::handleFileSelection\<close>. The setters of constant clip options (sync type,
  auto pitch, stretch mode, proxy, auto tempo, gain) and \<open>updateButtonStates\<close> (widget
  state only) do not touch any field of the model and are left out. The clip pointers
  are dereferenced before they are tested, so a null clip is a crash; so is a null
  thumbnail, which this function does not test. For a file whose BPM is 0 the source's
  quotients are infinite or NaN, which \<open>real\<close> does not have: every statement below about
  a quotient by the base tempo assumes \<open>bpmForFile file \<noteq> 0\<close>.
\<close>

definition handleFileSelection :: "audio_file \<Rightarrow> main_component \<Rightarrow> error + main_component" where
  "handleFileSelection file s =
     (if \<not> existsAsFile file then Inr s
      else if \<not> isValid file then Inr s
      else if track1 s = None \<or> track2 s = None then Inr s
      else
        let s1 = s\<lparr>track1 := Some [], track2 := Some []\<rparr>;
            detectedBPM = bpmForFile file;
            s2 = s1\<lparr>baseTempo := detectedBPM\<rparr>
        in if \<not> insertWaveClipOk file then Inl NullPointerDereference
        else
          let clip1 = \<lparr>clipName = fileNameWithoutExtension file, clipStart = 0,
                       clipLength = audioLength file, clipOffset = 0, loopInfoBpm = None\<rparr>;
              s3 = s2\<lparr>trackOffset := (60.0 / baseTempo s2) * 1000.0\<rparr>;
              clip2 = \<lparr>clipName = fileNameWithoutExtension file, clipStart = 0.0,
                       clipLength = audioLength file, clipOffset = trackOffset s3 / 1000.0,
                       loopInfoBpm = None\<rparr>;
              s4 = s3\<lparr>track1 := Some [clip1\<lparr>loopInfoBpm := Some (baseTempo s3)\<rparr>],
                      track2 := Some [clip2\<lparr>loopInfoBpm := Some (baseTempo s3)\<rparr>]\<rparr>;
              currentRatio = screwTempo s4 / baseTempo s4;
              s5 = s4\<lparr>screwBaseTempo := baseTempo s4\<rparr>;
              newTempo = baseTempo s5 * currentRatio;
              s6 = s5\<lparr>screwTempo := newTempo\<rparr>;
              s7 = setSequenceBpm (baseTempo s6) s6;
              s8 = (transportStop s7)\<lparr>transportPosition := 0.0\<rparr>;
              s9 = s8\<lparr>playState := Stopped, playButtonState := False, stopButtonState := True,
                      trackName := fileNameWithoutExtension file\<rparr>;
              quarterNoteMs = (60.0 / baseTempo s9) * 1000.0;
              s10 = pushDelay (SetDelayTime quarterNoteMs) s9;
              ratio = screwTempo s10 / baseTempo s10;
              s11 = transportStop (loopAroundClip clip1 s10)
          in if thumbnail s11 = None then Inl NullPointerDereference
          else
            let s12 = pushThumbnail (SetSpeedRatio ratio)
                        (pushThumbnail (SetFile (fileNameWithoutExtension file)) s11);
                s13 = updateCrossfader (setCrossfaderValue 0.0 s12);
                s14 = updateTempo s13
            in if playState s14 \<noteq> Playing
               then Inr (play (s14\<lparr>transportPosition := 0.0\<rparr>))
               else Inr s14)"

section \<open>Gamepad axes\<close>

definition pushFlanger :: "flanger_call list \<Rightarrow> main_component \<Rightarrow> main_component" where
  "pushFlanger cs' s =
     (case flangerComponent s of None \<Rightarrow> s | Some cs \<Rightarrow> s\<lparr>flangerComponent := Some (cs @ cs')\<rparr>)"

definition pushPhaser :: "phaser_call list \<Rightarrow> main_component \<Rightarrow> main_component" where
  "pushPhaser cs' s =
     (case phaserComponent s of None \<Rightarrow> s | Some cs \<Rightarrow> s\<lparr>phaserComponent := Some (cs @ cs')\<rparr>)"

text \<open>The width handed to the flanger, from the two statics of the left stick.\<close>

definition flangerWidth :: "main_component \<Rightarrow> real" where
  "flangerWidth s =
     (let distance = sqrt (leftX s * leftX s + leftY s * leftY s);
          normalizedDistance = distance / sqrt 2.0;
          curvedWidth = normalizedDistance * normalizedDistance
      in jlimit 0.0 0.99 curvedWidth)"

text \<open>The feedback handed to the phaser, from the two statics of the right stick.\<close>

definition phaserFeedback :: "main_component \<Rightarrow> real" where
  "phaserFeedback s =
     (let distance = sqrt (rightX s * rightX s + rightY s * rightY s)
      in jlimit 0.0 0.70 distance)"

fun gamepadAxisMoved :: "gamepad_axis \<Rightarrow> real \<Rightarrow> main_component \<Rightarrow> main_component" where
  "gamepadAxisMoved RIGHT_TRIGGER v s =
     (case vinylBrakeComponent s of None \<Rightarrow> s
      | Some (brakeValue, cs) \<Rightarrow>
          if v < 0.01 \<and> brakeValue > 0.0
          then s\<lparr>vinylBrakeComponent := Some (brakeValue, cs @ [StartSpringAnimation])\<rparr>
          else s\<lparr>vinylBrakeComponent := Some (v, cs @ [SetBrakeValue v])\<rparr>)"
| "gamepadAxisMoved LEFT_TRIGGER v s = s"
| "gamepadAxisMoved LEFTX v s =
     (let s1 = s\<lparr>leftX := v\<rparr>
      in pushFlanger [SetSpeed (v * 10.0), SetWidth (flangerWidth s1)] s1)"
| "gamepadAxisMoved LEFTY v s =
     (let s1 = s\<lparr>leftY := v\<rparr>
      in pushFlanger [FlangerSetDepth (v * 10.0), SetWidth (flangerWidth s1)] s1)"
| "gamepadAxisMoved RIGHTX v s =
     (let s1 = s\<lparr>rightX := v\<rparr>
      in pushPhaser [SetRate (v * 10.0), SetFeedback (phaserFeedback s1)] s1)"
| "gamepadAxisMoved RIGHTY v s =
     (let s1 = s\<lparr>rightY := v\<rparr>
      in pushPhaser [PhaserSetDepth (v * 10.0), SetFeedback (phaserFeedback s1)] s1)"
| "gamepadAxisMoved (OtherAxis a) v s = s"

section \<open>The BPM editor of the library\<close>

text \<open>
  \<open>okButton->onClick\<close> in \<open>LibraryComponent::showBpmEditorWindow\<close>: \<open>newBpm\<close> is the
  editor's text read as a float, the state is the \<open>bpm\<close> property of the edited project
  item (\<open>None\<close>: the item reference is null).
\<close>

definition okButton_onClick :: "real \<Rightarrow> real option \<Rightarrow> real option" where
  "okButton_onClick newBpm itemRef =
     (if newBpm \<le> 0 then itemRef
      else (case itemRef of None \<Rightarrow> None | Some b \<Rightarrow> Some newBpm))"

section \<open>Concrete states\<close>

text \<open>
  A component as the constructor leaves it (two empty tracks with their volume plugins,
  every effect component present, the timer at 30 Hz), at base tempo 120.
\<close>

definition constructed :: main_component where
  "constructed =
     \<lparr>baseTempo = 120, trackOffset = 0, chopStartTime = 0, chopReleaseDelay = 0,
      timerInterval = 33, playState = Stopped, track1 = Some [], track2 = Some [],
      volumeAndPan1 = Some None, volumeAndPan2 = Some None, crossfaderValue = 0,
      screwTempo = 120, screwBaseTempo = 120, tempoSetting = Some 120,
      transportPlaying = False, transportPosition = 0, loopRange = None,
      playButtonState = False, stopButtonState = True, trackName = [],
      thumbnail = Some [], delayComponent = Some [], reverbComponent = Some [],
      flangerComponent = Some [], phaserComponent = Some [],
      vinylBrakeComponent = Some (0, []),
      leftX = 0, leftY = 0, rightX = 0, rightY = 0\<rparr>"

definition track :: "real \<Rightarrow> audio_file" where
  "track bpm =
     \<lparr>existsAsFile = True, isValid = True, fileNameWithoutExtension = ''track'',
      audioLength = 180, bpmForFile = bpm, insertWaveClipOk = True\<rparr>"

section \<open>Field lemmas for the helpers\<close>

lemma static_cast_int_in_range:
  "0 \<le> r \<Longrightarrow> r < 2147483648 \<Longrightarrow> static_cast_int r = Inr \<lfloor>r\<rfloor>"
  by (simp add: static_cast_int_def Let_def floor_le_iff)

lemma static_cast_int_too_large:
  "2147483648 \<le> r \<Longrightarrow> static_cast_int r = Inl UndefinedConversion"
  by (simp add: static_cast_int_def Let_def floor_le_iff)

lemma setSequenceBpm_fields [simp]:
  "baseTempo (setSequenceBpm b s) = baseTempo s"
  "trackOffset (setSequenceBpm b s) = trackOffset s"
  "screwTempo (setSequenceBpm b s) = screwTempo s"
  "track1 (setSequenceBpm b s) = track1 s"
  "track2 (setSequenceBpm b s) = track2 s"
  "delayComponent (setSequenceBpm b s) = delayComponent s"
  "thumbnail (setSequenceBpm b s) = thumbnail s"
  "playState (setSequenceBpm b s) = playState s"
  by (simp_all add: setSequenceBpm_def split: option.splits)

lemma transportStop_fields [simp]:
  "baseTempo (transportStop s) = baseTempo s"
  "trackOffset (transportStop s) = trackOffset s"
  "screwTempo (transportStop s) = screwTempo s"
  "track1 (transportStop s) = track1 s"
  "track2 (transportStop s) = track2 s"
  "delayComponent (transportStop s) = delayComponent s"
  "thumbnail (transportStop s) = thumbnail s"
  "playState (transportStop s) = playState s"
  by (simp_all add: transportStop_def)

lemma loopAroundClip_fields [simp]:
  "baseTempo (loopAroundClip c s) = baseTempo s"
  "trackOffset (loopAroundClip c s) = trackOffset s"
  "screwTempo (loopAroundClip c s) = screwTempo s"
  "track1 (loopAroundClip c s) = track1 s"
  "track2 (loopAroundClip c s) = track2 s"
  "delayComponent (loopAroundClip c s) = delayComponent s"
  "thumbnail (loopAroundClip c s) = thumbnail s"
  "playState (loopAroundClip c s) = playState s"
  by (simp_all add: loopAroundClip_def)

lemma pushDelay_fields [simp]:
  "baseTempo (pushDelay c s) = baseTempo s"
  "trackOffset (pushDelay c s) = trackOffset s"
  "screwTempo (pushDelay c s) = screwTempo s"
  "track1 (pushDelay c s) = track1 s"
  "track2 (pushDelay c s) = track2 s"
  "delayComponent (pushDelay c s) = map_option (\<lambda>cs. cs @ [c]) (delayComponent s)"
  "thumbnail (pushDelay c s) = thumbnail s"
  "playState (pushDelay c s) = playState s"
  by (simp_all add: pushDelay_def split: option.splits)

lemma pushThumbnail_fields [simp]:
  "baseTempo (pushThumbnail c s) = baseTempo s"
  "trackOffset (pushThumbnail c s) = trackOffset s"
  "screwTempo (pushThumbnail c s) = screwTempo s"
  "track1 (pushThumbnail c s) = track1 s"
  "track2 (pushThumbnail c s) = track2 s"
  "delayComponent (pushThumbnail c s) = delayComponent s"
  "thumbnail (pushThumbnail c s) = map_option (\<lambda>cs. cs @ [c]) (thumbnail s)"
  "playState (pushThumbnail c s) = playState s"
  by (simp_all add: pushThumbnail_def split: option.splits)

lemma setCrossfaderValue_fields [simp]:
  "baseTempo (setCrossfaderValue v s) = baseTempo s"
  "trackOffset (setCrossfaderValue v s) = trackOffset s"
  "screwTempo (setCrossfaderValue v s) = screwTempo s"
  "track1 (setCrossfaderValue v s) = track1 s"
  "track2 (setCrossfaderValue v s) = track2 s"
  "delayComponent (setCrossfaderValue v s) = delayComponent s"
  "thumbnail (setCrossfaderValue v s) = thumbnail s"
  "playState (setCrossfaderValue v s) = playState s"
  by (simp_all add: setCrossfaderValue_def)

lemma setTrackVolume_fields [simp]:
  "baseTempo (setTrackVolume i g s) = baseTempo s"
  "trackOffset (setTrackVolume i g s) = trackOffset s"
  "screwTempo (setTrackVolume i g s) = screwTempo s"
  "track1 (setTrackVolume i g s) = track1 s"
  "track2 (setTrackVolume i g s) = track2 s"
  "delayComponent (setTrackVolume i g s) = delayComponent s"
  "thumbnail (setTrackVolume i g s) = thumbnail s"
  "playState (setTrackVolume i g s) = playState s"
  by (simp_all add: setTrackVolume_def)

lemma updateCrossfader_fields [simp]:
  "baseTempo (updateCrossfader s) = baseTempo s"
  "trackOffset (updateCrossfader s) = trackOffset s"
  "screwTempo (updateCrossfader s) = screwTempo s"
  "track1 (updateCrossfader s) = track1 s"
  "track2 (updateCrossfader s) = track2 s"
  "delayComponent (updateCrossfader s) = delayComponent s"
  "thumbnail (updateCrossfader s) = thumbnail s"
  "playState (updateCrossfader s) = playState s"
  by (simp_all add: updateCrossfader_def Let_def split: prod.splits)

lemma updateTempo_fields [simp]:
  "baseTempo (updateTempo s) = baseTempo s"
  "trackOffset (updateTempo s) = trackOffset s"
  "screwTempo (updateTempo s) = screwTempo s"
  "track1 (updateTempo s) = track1 s"
  "track2 (updateTempo s) = track2 s"
  "delayComponent (updateTempo s) =
     map_option (\<lambda>cs. cs @ [SetTempo (screwTempo s)]) (delayComponent s)"
  "thumbnail (updateTempo s) =
     map_option (\<lambda>cs. cs @ [SetSpeedRatio (baseTempo s / screwTempo s)]) (thumbnail s)"
  "playState (updateTempo s) = playState s"
  by (simp_all add: updateTempo_def Let_def)

lemma play_fields [simp]:
  "baseTempo (play s) = baseTempo s"
  "trackOffset (play s) = trackOffset s"
  "screwTempo (play s) = screwTempo s"
  "track1 (play s) = track1 s"
  "track2 (play s) = track2 s"
  "delayComponent (play s) = delayComponent s"
  "thumbnail (play s) = thumbnail s"
  by (simp_all add: play_def togglePlay_def Let_def)

section \<open>What a successful load leaves behind\<close>

lemma load_succeeds:
  assumes "existsAsFile file" "isValid file" "track1 s \<noteq> None" "track2 s \<noteq> None"
    "insertWaveClipOk file" "thumbnail s \<noteq> None"
  shows "\<exists>s'. handleFileSelection file s = Inr s'"
  using assms by (simp add: handleFileSelection_def Let_def)

lemma load_baseTempo:
  assumes "handleFileSelection file s = Inr s'"
    and "existsAsFile file" "isValid file" "track1 s \<noteq> None" "track2 s \<noteq> None"
  shows "baseTempo s' = bpmForFile file"
  using assms
  by (auto simp add: handleFileSelection_def Let_def split: if_splits)

text \<open>
  The ratio is taken after \<open>baseTempo\<close> has been overwritten, so multiplying it back
  returns the live tempo that was there before the load (\<open>load_fields(2)\<close>).
\<close>

lemma load_fields:
  assumes "handleFileSelection file s = Inr s'"
    and "existsAsFile file" "isValid file" "track1 s \<noteq> None" "track2 s \<noteq> None"
    and "bpmForFile file \<noteq> 0"
  shows "trackOffset s' = 60 / bpmForFile file * 1000"
    and "screwTempo s' = screwTempo s"
    and "track1 s' = Some [\<lparr>clipName = fileNameWithoutExtension file, clipStart = 0,
            clipLength = audioLength file, clipOffset = 0,
            loopInfoBpm = Some (bpmForFile file)\<rparr>]"
    and "track2 s' = Some [\<lparr>clipName = fileNameWithoutExtension file, clipStart = 0,
            clipLength = audioLength file, clipOffset = 60 / bpmForFile file * 1000 / 1000,
            loopInfoBpm = Some (bpmForFile file)\<rparr>]"
    and "delayComponent s' =
           map_option (\<lambda>cs. cs @ [SetDelayTime (60 / bpmForFile file * 1000),
                                 SetTempo (screwTempo s)])
             (delayComponent s)"
  using assms
  by (auto simp add: handleFileSelection_def Let_def option.map_comp comp_def split: if_splits)

lemma load_thumbnail:
  assumes "handleFileSelection file s = Inr s'"
    and "existsAsFile file" "isValid file" "track1 s \<noteq> None" "track2 s \<noteq> None"
    and "bpmForFile file \<noteq> 0" "screwTempo s \<noteq> 0"
  shows "thumbnail s' =
           map_option (\<lambda>cs. cs @ [SetFile (fileNameWithoutExtension file),
               SetSpeedRatio (screwTempo s / bpmForFile file),
               SetSpeedRatio (bpmForFile file / screwTempo s)])
             (thumbnail s)"
  using assms
  by (auto simp add: handleFileSelection_def Let_def option.map_comp comp_def split: if_splits)

section \<open>Track reload and the live tempo\<close>

text \<open>
  Claim C1. A reload is meant to capture \<open>oldRatio = live / oldBase\<close> and set the live tempo
  to \<open>newBase * oldRatio\<close>; with base 120 and live 150, loading a file of base tempo 100
  should leave the live tempo at 125. In \<open>handleFileSelection\<close> the field \<open>baseTempo\<close>
  already holds the new base tempo when the ratio is taken, so the ratio is
  \<open>live / newBase\<close> and the live tempo comes out as it went in: 150.
\<close>

theorem reload_live_tempo_120_150_100:
  "\<exists>s'. handleFileSelection (track 100) (constructed\<lparr>screwTempo := 150\<rparr>) = Inr s'
     \<and> baseTempo (constructed\<lparr>screwTempo := 150\<rparr>) = 120
     \<and> baseTempo s' = 100 \<and> screwTempo s' = 150 \<and> screwTempo s' \<noteq> 125"
proof -
  let ?s = "constructed\<lparr>screwTempo := 150\<rparr>"
  have v: "existsAsFile (track 100)" "isValid (track 100)" "track1 ?s \<noteq> None"
    "track2 ?s \<noteq> None" "insertWaveClipOk (track 100)" "thumbnail ?s \<noteq> None"
    by (simp_all add: track_def constructed_def)
  from load_succeeds [OF v] obtain s' where r: "handleFileSelection (track 100) ?s = Inr s'" ..
  have n: "bpmForFile (track 100) \<noteq> 0"
    by (simp add: track_def)
  have "baseTempo s' = 100"
    using load_baseTempo [OF r v(1-4)] by (simp add: track_def)
  moreover have "screwTempo s' = 150"
    using load_fields(2) [OF r v(1-4) n] by simp
  moreover have "baseTempo ?s = 120"
    by (simp add: constructed_def)
  ultimately show ?thesis using r by simp
qed

section \<open>Speed ratio of the waveform display\<close>

text \<open>
  Claim C2. On a tempo change the ratio pushed to the waveform display should be
  \<open>liveTempo / baseTempo\<close>. \<open>updateTempo\<close> pushes \<open>baseTempo / newBpm\<close>, base over live: at
  base 120 and live 150 the display receives \<open>4/5\<close>, not \<open>5/4\<close>.
\<close>

theorem updateTempo_speed_ratio_120_150:
  "thumbnail (updateTempo (constructed\<lparr>screwTempo := 150\<rparr>)) = Some [SetSpeedRatio (4 / 5)]
   \<and> screwTempo (constructed\<lparr>screwTempo := 150\<rparr>) / baseTempo (constructed\<lparr>screwTempo := 150\<rparr>)
       = 5 / 4"
  by (simp add: constructed_def)

section \<open>Delay time\<close>

text \<open>
  Claim C3, as stated: every delay time pushed to the delay effect is
  \<open>(60 / liveTempo) * 1000\<close>. It fails on a load: with live tempo 150 and a file of base
  tempo 100, \<open>handleFileSelection\<close> pushes the delay time 600, the quarter note of the base
  tempo, while the live tempo stays 150 (quarter note 400).
\<close>

theorem load_delay_time_counterexample:
  "\<exists>s'. handleFileSelection (track 100) (constructed\<lparr>screwTempo := 150\<rparr>) = Inr s'
     \<and> screwTempo s' = 150
     \<and> delayComponent s' = Some [SetDelayTime 600, SetTempo 150]
     \<and> (600 :: real) \<noteq> 60 / 150 * 1000"
proof -
  let ?s = "constructed\<lparr>screwTempo := 150\<rparr>"
  have v: "existsAsFile (track 100)" "isValid (track 100)" "track1 ?s \<noteq> None"
    "track2 ?s \<noteq> None" "insertWaveClipOk (track 100)" "thumbnail ?s \<noteq> None"
    by (simp_all add: track_def constructed_def)
  from load_succeeds [OF v] obtain s' where r: "handleFileSelection (track 100) ?s = Inr s'" ..
  have n: "bpmForFile (track 100) \<noteq> 0"
    by (simp add: track_def)
  have "screwTempo s' = 150"
    using load_fields(2) [OF r v(1-4) n] by simp
  moreover have "delayComponent s' = Some [SetDelayTime 600, SetTempo 150]"
    using load_fields(5) [OF r v(1-4) n] by (simp add: track_def constructed_def)
  ultimately show ?thesis using r by simp
qed

text \<open>
  Claim C3, amended. On a tempo change \<open>updateTempo\<close> hands the delay effect the live tempo
  itself (\<open>setTempo\<close>), and the callback \<open>onTempoChanged\<close> hands it the reported tempo once
  more. On a load of a file with non-zero base tempo \<open>handleFileSelection\<close> stores that base
  tempo, first pushes the delay time \<open>(60 / baseTempo) * 1000\<close> computed from it, and then,
  through \<open>updateTempo\<close>, the live tempo as it stands after the load.
\<close>

theorem delay_effect_pushes:
  assumes "delayComponent s = Some cs"
  shows "delayComponent (updateTempo s) = Some (cs @ [SetTempo (screwTempo s)])
     \<and> delayComponent (onTempoChanged tempo s) =
         Some (cs @ [SetTempo (screwTempo s), SetTempo tempo])
     \<and> (existsAsFile file \<and> isValid file \<and> track1 s \<noteq> None \<and> track2 s \<noteq> None
          \<and> insertWaveClipOk file \<and> thumbnail s \<noteq> None \<and> bpmForFile file \<noteq> 0 \<longrightarrow>
         (\<exists>s'. handleFileSelection file s = Inr s'
            \<and> baseTempo s' = bpmForFile file
            \<and> delayComponent s' =
                Some (cs @ [SetDelayTime (60 / bpmForFile file * 1000),
                            SetTempo (screwTempo s')])))"
proof (intro conjI impI)
  show "delayComponent (updateTempo s) = Some (cs @ [SetTempo (screwTempo s)])"
    using assms by simp
  show "delayComponent (onTempoChanged tempo s) =
      Some (cs @ [SetTempo (screwTempo s), SetTempo tempo])"
    using assms by (simp add: onTempoChanged_def)
next
  assume v: "existsAsFile file \<and> isValid file \<and> track1 s \<noteq> None \<and> track2 s \<noteq> None
          \<and> insertWaveClipOk file \<and> thumbnail s \<noteq> None \<and> bpmForFile file \<noteq> 0"
  then obtain s' where r: "handleFileSelection file s = Inr s'"
    using load_succeeds by blast
  have "baseTempo s' = bpmForFile file"
    using load_baseTempo [OF r] v by simp
  moreover have "delayComponent s' =
      Some (cs @ [SetDelayTime (60 / bpmForFile file * 1000), SetTempo (screwTempo s')])"
    using load_fields(2,5) [OF r] v assms by simp
  ultimately show "\<exists>s'. handleFileSelection file s = Inr s'
            \<and> baseTempo s' = bpmForFile file
            \<and> delayComponent s' =
                Some (cs @ [SetDelayTime (60 / bpmForFile file * 1000),
                            SetTempo (screwTempo s')])"
    using r by blast
qed

theorem delay_effect_pushes_witness:
  "delayComponent (updateTempo (constructed\<lparr>screwTempo := 150\<rparr>)) = Some [SetTempo 150]
   \<and> delayComponent (onTempoChanged 150 (constructed\<lparr>screwTempo := 150\<rparr>)) =
       Some [SetTempo 150, SetTempo 150]
   \<and> (\<exists>s'. handleFileSelection (track 100) (constructed\<lparr>screwTempo := 150\<rparr>) = Inr s'
        \<and> baseTempo s' = 100
        \<and> delayComponent s' = Some [SetDelayTime 600, SetTempo (screwTempo s')])"
  using delay_effect_pushes [of "constructed\<lparr>screwTempo := 150\<rparr>" "[]" 150 "track 100"]
  by (simp add: constructed_def track_def)

section \<open>Deck offset\<close>

text \<open>
  Claim C7. A load of a file with positive base tempo sets the track offset to
  \<open>(60 / baseTempo) * 1000\<close> ms, computed from the base tempo of the file just loaded.
  Deck B's clip is placed at timeline position 0 with the offset, in seconds, as its
  internal offset; deck A's clip has the same name and length and offset 0. At base tempo
  120 the offset is 500 ms.
\<close>

theorem deck_offset_on_load:
  assumes "existsAsFile file" "isValid file" "track1 s \<noteq> None" "track2 s \<noteq> None"
    "insertWaveClipOk file" "thumbnail s \<noteq> None"
    and "0 < bpmForFile file"
  shows "\<exists>s'. handleFileSelection file s = Inr s'
     \<and> baseTempo s' = bpmForFile file
     \<and> trackOffset s' = 60 / baseTempo s' * 1000
     \<and> track1 s' = Some [\<lparr>clipName = fileNameWithoutExtension file, clipStart = 0,
            clipLength = audioLength file, clipOffset = 0,
            loopInfoBpm = Some (baseTempo s')\<rparr>]
     \<and> track2 s' = Some [\<lparr>clipName = fileNameWithoutExtension file, clipStart = 0,
            clipLength = audioLength file, clipOffset = trackOffset s' / 1000,
            loopInfoBpm = Some (baseTempo s')\<rparr>]
     \<and> (bpmForFile file = 120 \<longrightarrow> trackOffset s' = 500)"
proof -
  from load_succeeds [OF assms(1-6)] obtain s' where r: "handleFileSelection file s = Inr s'" ..
  have n: "bpmForFile file \<noteq> 0"
    using assms(7) by simp
  note b = load_baseTempo [OF r assms(1-4)]
  note f = load_fields [OF r assms(1-4) n]
  have "baseTempo s' = bpmForFile file" by (rule b)
  moreover have "trackOffset s' = 60 / baseTempo s' * 1000" using b f(1) by simp
  moreover have "track1 s' = Some [\<lparr>clipName = fileNameWithoutExtension file, clipStart = 0,
            clipLength = audioLength file, clipOffset = 0,
            loopInfoBpm = Some (baseTempo s')\<rparr>]" using b f(3) by simp
  moreover have "track2 s' = Some [\<lparr>clipName = fileNameWithoutExtension file, clipStart = 0,
            clipLength = audioLength file, clipOffset = trackOffset s' / 1000,
            loopInfoBpm = Some (baseTempo s')\<rparr>]" using b f(1,4) by simp
  moreover have "bpmForFile file = 120 \<longrightarrow> trackOffset s' = 500" using f(1) by simp
  ultimately show ?thesis using r by blast
qed

theorem deck_offset_on_load_witness:
  "\<exists>s'. handleFileSelection (track 120) constructed = Inr s'
     \<and> baseTempo s' = 120 \<and> trackOffset s' = 500
     \<and> track2 s' = Some [\<lparr>clipName = ''track'', clipStart = 0, clipLength = 180,
            clipOffset = 1 / 2, loopInfoBpm = Some 120\<rparr>]"
proof -
  have v: "existsAsFile (track 120)" "isValid (track 120)" "track1 constructed \<noteq> None"
    "track2 constructed \<noteq> None" "insertWaveClipOk (track 120)" "thumbnail constructed \<noteq> None"
    "0 < bpmForFile (track 120)"
    by (simp_all add: track_def constructed_def)
  from deck_offset_on_load [OF v] obtain s' where
    "handleFileSelection (track 120) constructed = Inr s'"
    "baseTempo s' = bpmForFile (track 120)"
    "trackOffset s' = 60 / baseTempo s' * 1000"
    "track2 s' = Some [\<lparr>clipName = fileNameWithoutExtension (track 120), clipStart = 0,
            clipLength = audioLength (track 120), clipOffset = trackOffset s' / 1000,
            loopInfoBpm = Some (baseTempo s')\<rparr>]"
    by blast
  then show ?thesis by (simp add: track_def)
qed

section \<open>Base tempo of zero\<close>

text \<open>
  Claim C9. A base tempo \<open>\<le> 0\<close> must be refused. The BPM editor does refuse it
  (\<open>okButton_refuses_nonpositive\<close>), but \<open>handleFileSelection\<close> stores whatever
  \<open>getBPMForFile\<close> returns: for a file whose stored BPM is 0 the base tempo becomes 0.
\<close>

lemma okButton_refuses_nonpositive: "newBpm \<le> 0 \<Longrightarrow> okButton_onClick newBpm itemRef = itemRef"
  by (simp add: okButton_onClick_def)

theorem load_base_tempo_zero:
  "\<exists>s'. handleFileSelection (track 0) constructed = Inr s' \<and> baseTempo s' = 0"
proof -
  have v: "existsAsFile (track 0)" "isValid (track 0)" "track1 constructed \<noteq> None"
    "track2 constructed \<noteq> None" "insertWaveClipOk (track 0)" "thumbnail constructed \<noteq> None"
    by (simp_all add: track_def constructed_def)
  from load_succeeds [OF v] obtain s' where r: "handleFileSelection (track 0) constructed = Inr s'" ..
  have "baseTempo s' = 0"
    using load_baseTempo [OF r v(1-4)] by (simp add: track_def)
  with r show ?thesis by simp
qed

section \<open>Invalid files\<close>

text \<open>
  Claim C10. For a file that does not exist, or that is not a valid audio file,
  \<open>handleFileSelection\<close> returns with the component unchanged: no clip is removed or
  inserted, and base tempo, track offset, crossfader position and transport are as before.
\<close>

theorem invalid_file_noop:
  "\<not> existsAsFile file \<or> \<not> isValid file \<Longrightarrow> handleFileSelection file s = Inr s"
  by (auto simp add: handleFileSelection_def)

theorem invalid_file_noop_witness:
  "handleFileSelection ((track 120)\<lparr>existsAsFile := False\<rparr>) constructed = Inr constructed
   \<and> handleFileSelection ((track 120)\<lparr>isValid := False\<rparr>) constructed = Inr constructed"
  using invalid_file_noop [of "(track 120)\<lparr>existsAsFile := False\<rparr>" constructed]
    invalid_file_noop [of "(track 120)\<lparr>isValid := False\<rparr>" constructed]
  by (simp add: track_def)

section \<open>Chop press\<close>

text \<open>
  Claim C6. A chop press, from the chop button or from the gamepad's south button, records
  the press time and sets the crossfader to the opposite extreme, with 0.5 as the
  boundary: to 1 when the position is at most 0.5, to 0 otherwise. Nothing else changes.
\<close>

theorem chop_press_toggles:
  "onChopButtonPressed now s =
     s\<lparr>chopStartTime := now, crossfaderValue := (if crossfaderValue s \<le> 1 / 2 then 1 else 0)\<rparr>
   \<and> gamepadButtonPressed SOUTH now s =
     s\<lparr>chopStartTime := now, crossfaderValue := (if crossfaderValue s \<le> 1 / 2 then 1 else 0)\<rparr>"
  by (simp add: onChopButtonPressed_def setCrossfaderValue_def Let_def)

section \<open>Chop release\<close>

text \<open>
  Claim C5, as stated: a release before the minimum hold schedules the deferred toggle at
  delay \<open>minimumHoldMs - elapsed\<close>. The timer is started with that delay cast to \<open>int\<close>:
  with a minimum of 500 ms and a release after 249.5 ms the delay is 250.5 ms and the
  timer interval 250 ms.
\<close>

theorem chop_release_delay_counterexample:
  "\<exists>s'. gamepadButtonReleased SOUTH (499 / 2) (constructed\<lparr>trackOffset := 500\<rparr>) = Inr s'
     \<and> chopReleaseDelay s' = 500 - 499 / 2
     \<and> real_of_int (timerInterval s') \<noteq> 500 - 499 / 2"
  by (simp add: constructed_def startTimer_def static_cast_int_def Let_def)

lemma release_long:
  assumes "m \<le> now - chopStartTime s"
  shows "m = trackOffset s \<Longrightarrow> gamepadButtonReleased SOUTH now s =
           Inr (s\<lparr>crossfaderValue := (if crossfaderValue s \<le> 1 / 2 then 1 else 0)\<rparr>)"
    and "m = d (screwTempo s) \<Longrightarrow> onChopButtonReleased d now s =
           Inr (s\<lparr>crossfaderValue := (if crossfaderValue s \<le> 1 / 2 then 1 else 0)\<rparr>)"
  using assms by (simp_all add: onChopButtonReleased_def setCrossfaderValue_def Let_def)

lemma release_short:
  assumes "now - chopStartTime s < m" "m - (now - chopStartTime s) < 2147483648"
  shows "m = trackOffset s \<Longrightarrow> gamepadButtonReleased SOUTH now s =
           Inr (s\<lparr>chopReleaseDelay := m - (now - chopStartTime s),
                  timerInterval := \<lfloor>m - (now - chopStartTime s)\<rfloor>\<rparr>)"
    and "m = d (screwTempo s) \<Longrightarrow> onChopButtonReleased d now s =
           Inr (s\<lparr>chopReleaseDelay := m - (now - chopStartTime s),
                  timerInterval := \<lfloor>m - (now - chopStartTime s)\<rfloor>\<rparr>)"
  using assms
  by (simp_all add: onChopButtonReleased_def startTimer_def Let_def static_cast_int_in_range)

lemma release_undefined:
  assumes "now - chopStartTime s < m" "2147483648 \<le> m - (now - chopStartTime s)"
  shows "m = trackOffset s \<Longrightarrow> gamepadButtonReleased SOUTH now s = Inl UndefinedConversion"
    and "m = d (screwTempo s) \<Longrightarrow> onChopButtonReleased d now s = Inl UndefinedConversion"
  using assms
  by (simp_all add: onChopButtonReleased_def Let_def static_cast_int_too_large)

lemma afterStartTimer_before:
  "t < timerInterval s \<Longrightarrow> afterStartTimer t s = s"
  by (simp add: afterStartTimer_def)

lemma afterStartTimer_fired:
  "timerInterval s \<le> t \<Longrightarrow>
     afterStartTimer t s = s\<lparr>crossfaderValue := (if crossfaderValue s \<le> 1 / 2 then 1 else 0)\<rparr>"
  by (simp add: afterStartTimer_def timerCallback_def setCrossfaderValue_def Let_def)

text \<open>
  Claim C5, amended. Let \<open>h\<close> be the result of a chop release, from the gamepad's south
  button (minimum \<open>m = trackOffset\<close>) or from the chop button (minimum
  \<open>m = getChopDurationInMs\<close> of the live tempo), and \<open>e = now - chopStartTime\<close> the elapsed
  time. With \<open>e \<ge> m\<close> the release toggles the crossfader once and changes nothing else: no
  timer is started. With \<open>e < m\<close> the release does not toggle; it stores
  \<open>chopReleaseDelay = m - e\<close> and schedules the one-shot deferred action at that delay
  truncated to whole milliseconds, which is defined for a delay below \<open>2\<^sup>3\<^sup>1\<close> ms (above,
  the conversion to \<open>int\<close> is undefined). The crossfader keeps its position until the
  callback fires, and from then on holds the toggled position, however long one waits.
\<close>

theorem chop_release:
  assumes "h = gamepadButtonReleased SOUTH now s \<and> m = trackOffset s
         \<or> h = onChopButtonReleased d now s \<and> m = d (screwTempo s)"
    and "e = now - chopStartTime s"
  shows "(m \<le> e \<longrightarrow>
            h = Inr (s\<lparr>crossfaderValue := (if crossfaderValue s \<le> 1 / 2 then 1 else 0)\<rparr>))
     \<and> (e < m \<and> m - e < 2147483648 \<longrightarrow>
          (\<exists>s'. h = Inr s'
             \<and> s' = s\<lparr>chopReleaseDelay := m - e, timerInterval := \<lfloor>m - e\<rfloor>\<rparr>
             \<and> 0 \<le> timerInterval s' \<and> timerInterval s' \<le> 2147483647
             \<and> (\<forall>t. t < timerInterval s' \<longrightarrow>
                   crossfaderValue (afterStartTimer t s') = crossfaderValue s)
             \<and> (\<forall>t. timerInterval s' \<le> t \<longrightarrow>
                   afterStartTimer t s' =
                     s'\<lparr>crossfaderValue := (if crossfaderValue s \<le> 1 / 2 then 1 else 0)\<rparr>)))
     \<and> (e < m \<and> 2147483648 \<le> m - e \<longrightarrow> h = Inl UndefinedConversion)"
proof (intro conjI impI)
  assume "m \<le> e"
  then show "h = Inr (s\<lparr>crossfaderValue := (if crossfaderValue s \<le> 1 / 2 then 1 else 0)\<rparr>)"
    using assms release_long(1) [of m now s] release_long(2) [of m now s d] by auto
next
  assume a: "e < m \<and> m - e < 2147483648"
  let ?s' = "s\<lparr>chopReleaseDelay := m - e, timerInterval := \<lfloor>m - e\<rfloor>\<rparr>"
  have h: "h = Inr ?s'"
    using a assms release_short(1) [of now s m] release_short(2) [of now s m d] by auto
  have i: "timerInterval ?s' = \<lfloor>m - e\<rfloor>" and c: "crossfaderValue ?s' = crossfaderValue s"
    by simp_all
  have lo: "0 \<le> timerInterval ?s'"
    using a by simp
  have hi: "timerInterval ?s' \<le> 2147483647"
    using a by (simp add: floor_le_iff)
  have before: "\<forall>t. t < timerInterval ?s' \<longrightarrow>
      crossfaderValue (afterStartTimer t ?s') = crossfaderValue s"
    using afterStartTimer_before [of _ ?s'] c by simp
  have fired: "\<forall>t. timerInterval ?s' \<le> t \<longrightarrow>
      afterStartTimer t ?s' =
        ?s'\<lparr>crossfaderValue := (if crossfaderValue s \<le> 1 / 2 then 1 else 0)\<rparr>"
    using afterStartTimer_fired [of ?s'] c by simp
  show "\<exists>s'. h = Inr s'
             \<and> s' = s\<lparr>chopReleaseDelay := m - e, timerInterval := \<lfloor>m - e\<rfloor>\<rparr>
             \<and> 0 \<le> timerInterval s' \<and> timerInterval s' \<le> 2147483647
             \<and> (\<forall>t. t < timerInterval s' \<longrightarrow>
                   crossfaderValue (afterStartTimer t s') = crossfaderValue s)
             \<and> (\<forall>t. timerInterval s' \<le> t \<longrightarrow>
                   afterStartTimer t s' =
                     s'\<lparr>crossfaderValue := (if crossfaderValue s \<le> 1 / 2 then 1 else 0)\<rparr>)"
    using h lo hi before fired by blast
next
  assume "e < m \<and> 2147483648 \<le> m - e"
  then show "h = Inl UndefinedConversion"
    using assms release_undefined(1) [of now s m] release_undefined(2) [of now s m d] by auto
qed

theorem chop_release_witness:
  "gamepadButtonReleased SOUTH 600 (constructed\<lparr>trackOffset := 500\<rparr>) =
     Inr (constructed\<lparr>trackOffset := 500, crossfaderValue := 1\<rparr>)
   \<and> gamepadButtonReleased SOUTH (499 / 2) (constructed\<lparr>trackOffset := 500\<rparr>) =
     Inr (constructed\<lparr>trackOffset := 500, chopReleaseDelay := 501 / 2, timerInterval := 250\<rparr>)
   \<and> crossfaderValue (afterStartTimer 249
       (constructed\<lparr>trackOffset := 500, chopReleaseDelay := 501 / 2, timerInterval := 250\<rparr>)) = 0
   \<and> afterStartTimer 250
       (constructed\<lparr>trackOffset := 500, chopReleaseDelay := 501 / 2, timerInterval := 250\<rparr>) =
     constructed\<lparr>trackOffset := 500, chopReleaseDelay := 501 / 2, timerInterval := 250,
       crossfaderValue := 1\<rparr>
   \<and> gamepadButtonReleased SOUTH 0 (constructed\<lparr>trackOffset := 6000000000\<rparr>) =
     Inl UndefinedConversion
   \<and> onChopButtonReleased (\<lambda>t. 60 / t * 1000) 600 constructed =
     Inr (constructed\<lparr>crossfaderValue := 1\<rparr>)
   \<and> onChopButtonReleased (\<lambda>t. 60 / t * 1000) (499 / 2) constructed =
     Inr (constructed\<lparr>chopReleaseDelay := 501 / 2, timerInterval := 250\<rparr>)"
proof -
  let ?g = "constructed\<lparr>trackOffset := 500\<rparr>"
  let ?b = "constructed\<lparr>trackOffset := 6000000000\<rparr>"
  let ?d = "\<lambda>t::real. 60 / t * 1000"
  have c: "chopStartTime constructed = 0" "crossfaderValue constructed = 0"
    "screwTempo constructed = 120"
    by (simp_all add: constructed_def)
  have g1: "gamepadButtonReleased SOUTH 600 ?g = Inr (?g\<lparr>crossfaderValue := 1\<rparr>)"
    using chop_release [of "gamepadButtonReleased SOUTH 600 ?g" 600 ?g 500 ?d 600] c
    by simp
  have g2: "gamepadButtonReleased SOUTH (499 / 2) ?g
        = Inr (?g\<lparr>chopReleaseDelay := 501 / 2, timerInterval := 250\<rparr>)
      \<and> crossfaderValue (afterStartTimer 249
          (?g\<lparr>chopReleaseDelay := 501 / 2, timerInterval := 250\<rparr>)) = 0
      \<and> afterStartTimer 250 (?g\<lparr>chopReleaseDelay := 501 / 2, timerInterval := 250\<rparr>)
          = ?g\<lparr>chopReleaseDelay := 501 / 2, timerInterval := 250, crossfaderValue := 1\<rparr>"
    using chop_release [of "gamepadButtonReleased SOUTH (499 / 2) ?g" "499 / 2" ?g 500 ?d "499 / 2"] c
    by simp
  have g3: "gamepadButtonReleased SOUTH 0 ?b = Inl UndefinedConversion"
    using chop_release [of "gamepadButtonReleased SOUTH 0 ?b" 0 ?b 6000000000 ?d 0] c
    by simp
  have o1: "onChopButtonReleased ?d 600 constructed = Inr (constructed\<lparr>crossfaderValue := 1\<rparr>)"
    using chop_release [of "onChopButtonReleased ?d 600 constructed" 600 constructed 500 ?d 600] c
    by simp
  have o2: "onChopButtonReleased ?d (499 / 2) constructed
        = Inr (constructed\<lparr>chopReleaseDelay := 501 / 2, timerInterval := 250\<rparr>)"
    using chop_release [of "onChopButtonReleased ?d (499 / 2) constructed" "499 / 2" constructed
        500 ?d "499 / 2"] c
    by simp
  show ?thesis
    using g1 g2 g3 o1 o2 by simp
qed

section \<open>Stick axes\<close>

lemma flangerWidth_formula:
  "flangerWidth s = jlimit 0 0.99 ((sqrt ((leftX s)\<^sup>2 + (leftY s)\<^sup>2) / sqrt 2)\<^sup>2)"
  by (simp add: flangerWidth_def Let_def power2_eq_square)

lemma phaserFeedback_formula:
  "phaserFeedback s = jlimit 0 0.70 (sqrt ((rightX s)\<^sup>2 + (rightY s)\<^sup>2))"
  by (simp add: phaserFeedback_def Let_def power2_eq_square)

lemma left_stick_step:
  assumes "flangerComponent s = Some fs"
  shows "gamepadAxisMoved LEFTX x s =
           s\<lparr>leftX := x, flangerComponent := Some (fs @ [SetSpeed (x * 10),
              SetWidth (jlimit 0 0.99 ((sqrt (x\<^sup>2 + (leftY s)\<^sup>2) / sqrt 2)\<^sup>2))])\<rparr>"
    and "gamepadAxisMoved LEFTY y s =
           s\<lparr>leftY := y, flangerComponent := Some (fs @ [FlangerSetDepth (y * 10),
              SetWidth (jlimit 0 0.99 ((sqrt ((leftX s)\<^sup>2 + y\<^sup>2) / sqrt 2)\<^sup>2))])\<rparr>"
  using assms by (simp_all add: pushFlanger_def flangerWidth_formula Let_def)

lemma right_stick_step:
  assumes "phaserComponent s = Some ps"
  shows "gamepadAxisMoved RIGHTX x s =
           s\<lparr>rightX := x, phaserComponent := Some (ps @ [SetRate (x * 10),
              SetFeedback (jlimit 0 0.70 (sqrt (x\<^sup>2 + (rightY s)\<^sup>2)))])\<rparr>"
    and "gamepadAxisMoved RIGHTY y s =
           s\<lparr>rightY := y, phaserComponent := Some (ps @ [PhaserSetDepth (y * 10),
              SetFeedback (jlimit 0 0.70 (sqrt ((rightX s)\<^sup>2 + y\<^sup>2)))])\<rparr>"
  using assms by (simp_all add: pushPhaser_def phaserFeedback_formula Let_def)

lemma width_at_1_0: "jlimit 0 0.99 ((sqrt (1\<^sup>2 + 0\<^sup>2) / sqrt 2)\<^sup>2) = 1 / 2"
  by (simp add: jlimit_def power_divide)

lemma width_at_0_0: "jlimit 0 0.99 ((sqrt (0\<^sup>2 + 0\<^sup>2) / sqrt 2)\<^sup>2) = 0"
  by (simp add: jlimit_def)

text \<open>
  Claim C8. Once the two axes of the left stick have reported \<open>x\<close> and \<open>y\<close>, in either
  order, the flanger has received speed \<open>x * 10\<close> and depth \<open>y * 10\<close>, and the last width it
  received is \<open>clamp ((sqrt (x\<^sup>2 + y\<^sup>2) / sqrt 2)\<^sup>2, 0, 0.99)\<close>. Likewise the phaser has
  received rate \<open>x * 10\<close> and depth \<open>y * 10\<close> of the right stick, and its last feedback is
  \<open>clamp (sqrt (x\<^sup>2 + y\<^sup>2), 0, 0.70)\<close>. The width is \<open>1/2\<close> at \<open>(1, 0)\<close> and 0 at \<open>(0, 0)\<close>.
\<close>

theorem stick_mapping:
  "(flangerComponent s = Some fs \<longrightarrow>
      gamepadAxisMoved LEFTY y (gamepadAxisMoved LEFTX x s) =
        s\<lparr>leftX := x, leftY := y,
          flangerComponent := Some (fs @
            [SetSpeed (x * 10),
             SetWidth (jlimit 0 0.99 ((sqrt (x\<^sup>2 + (leftY s)\<^sup>2) / sqrt 2)\<^sup>2)),
             FlangerSetDepth (y * 10),
             SetWidth (jlimit 0 0.99 ((sqrt (x\<^sup>2 + y\<^sup>2) / sqrt 2)\<^sup>2))])\<rparr>
      \<and> gamepadAxisMoved LEFTX x (gamepadAxisMoved LEFTY y s) =
        s\<lparr>leftX := x, leftY := y,
          flangerComponent := Some (fs @
            [FlangerSetDepth (y * 10),
             SetWidth (jlimit 0 0.99 ((sqrt ((leftX s)\<^sup>2 + y\<^sup>2) / sqrt 2)\<^sup>2)),
             SetSpeed (x * 10),
             SetWidth (jlimit 0 0.99 ((sqrt (x\<^sup>2 + y\<^sup>2) / sqrt 2)\<^sup>2))])\<rparr>)
   \<and> (phaserComponent s = Some ps \<longrightarrow>
      gamepadAxisMoved RIGHTY y (gamepadAxisMoved RIGHTX x s) =
        s\<lparr>rightX := x, rightY := y,
          phaserComponent := Some (ps @
            [SetRate (x * 10),
             SetFeedback (jlimit 0 0.70 (sqrt (x\<^sup>2 + (rightY s)\<^sup>2))),
             PhaserSetDepth (y * 10),
             SetFeedback (jlimit 0 0.70 (sqrt (x\<^sup>2 + y\<^sup>2)))])\<rparr>
      \<and> gamepadAxisMoved RIGHTX x (gamepadAxisMoved RIGHTY y s) =
        s\<lparr>rightX := x, rightY := y,
          phaserComponent := Some (ps @
            [PhaserSetDepth (y * 10),
             SetFeedback (jlimit 0 0.70 (sqrt ((rightX s)\<^sup>2 + y\<^sup>2))),
             SetRate (x * 10),
             SetFeedback (jlimit 0 0.70 (sqrt (x\<^sup>2 + y\<^sup>2)))])\<rparr>)
   \<and> jlimit 0 0.99 ((sqrt (1\<^sup>2 + 0\<^sup>2) / sqrt 2)\<^sup>2) = 1 / 2
   \<and> jlimit 0 0.99 ((sqrt (0\<^sup>2 + 0\<^sup>2) / sqrt 2)\<^sup>2) = 0"
proof (intro conjI impI)
  assume f: "flangerComponent s = Some fs"
  show "gamepadAxisMoved LEFTY y (gamepadAxisMoved LEFTX x s) =
        s\<lparr>leftX := x, leftY := y,
          flangerComponent := Some (fs @
            [SetSpeed (x * 10),
             SetWidth (jlimit 0 0.99 ((sqrt (x\<^sup>2 + (leftY s)\<^sup>2) / sqrt 2)\<^sup>2)),
             FlangerSetDepth (y * 10),
             SetWidth (jlimit 0 0.99 ((sqrt (x\<^sup>2 + y\<^sup>2) / sqrt 2)\<^sup>2))])\<rparr>"
    using f by (simp add: pushFlanger_def flangerWidth_formula)
  show "gamepadAxisMoved LEFTX x (gamepadAxisMoved LEFTY y s) =
        s\<lparr>leftX := x, leftY := y,
          flangerComponent := Some (fs @
            [FlangerSetDepth (y * 10),
             SetWidth (jlimit 0 0.99 ((sqrt ((leftX s)\<^sup>2 + y\<^sup>2) / sqrt 2)\<^sup>2)),
             SetSpeed (x * 10),
             SetWidth (jlimit 0 0.99 ((sqrt (x\<^sup>2 + y\<^sup>2) / sqrt 2)\<^sup>2))])\<rparr>"
    using f by (simp add: pushFlanger_def flangerWidth_formula)
next
  assume p: "phaserComponent s = Some ps"
  show "gamepadAxisMoved RIGHTY y (gamepadAxisMoved RIGHTX x s) =
        s\<lparr>rightX := x, rightY := y,
          phaserComponent := Some (ps @
            [SetRate (x * 10),
             SetFeedback (jlimit 0 0.70 (sqrt (x\<^sup>2 + (rightY s)\<^sup>2))),
             PhaserSetDepth (y * 10),
             SetFeedback (jlimit 0 0.70 (sqrt (x\<^sup>2 + y\<^sup>2)))])\<rparr>"
    using p by (simp add: pushPhaser_def phaserFeedback_formula)
  show "gamepadAxisMoved RIGHTX x (gamepadAxisMoved RIGHTY y s) =
        s\<lparr>rightX := x, rightY := y,
          phaserComponent := Some (ps @
            [PhaserSetDepth (y * 10),
             SetFeedback (jlimit 0 0.70 (sqrt ((rightX s)\<^sup>2 + y\<^sup>2))),
             SetRate (x * 10),
             SetFeedback (jlimit 0 0.70 (sqrt (x\<^sup>2 + y\<^sup>2)))])\<rparr>"
    using p by (simp add: pushPhaser_def phaserFeedback_formula)
next
  show "jlimit 0 0.99 ((sqrt (1\<^sup>2 + 0\<^sup>2) / sqrt 2)\<^sup>2) = 1 / 2" by (rule width_at_1_0)
  show "jlimit 0 0.99 ((sqrt (0\<^sup>2 + 0\<^sup>2) / sqrt 2)\<^sup>2) = 0" by (rule width_at_0_0)
qed

theorem stick_mapping_witness:
  "gamepadAxisMoved LEFTY 0 (gamepadAxisMoved LEFTX 1 constructed) =
     constructed\<lparr>leftX := 1, leftY := 0,
       flangerComponent :=
         Some [SetSpeed 10, SetWidth (1 / 2), FlangerSetDepth 0, SetWidth (1 / 2)]\<rparr>
   \<and> gamepadAxisMoved RIGHTY 0 (gamepadAxisMoved RIGHTX 1 constructed) =
     constructed\<lparr>rightX := 1, rightY := 0,
       phaserComponent :=
         Some [SetRate 10, SetFeedback (7 / 10), PhaserSetDepth 0, SetFeedback (7 / 10)]\<rparr>"
proof -
  have c: "flangerComponent constructed = Some []" "phaserComponent constructed = Some []"
    "leftY constructed = 0" "rightY constructed = 0"
    by (simp_all add: constructed_def)
  have w: "jlimit 0 (7 / 10) 1 = 7 / 10"
    by (simp add: jlimit_def)
  show ?thesis
    using stick_mapping [of constructed "[]" 0 1 "[]"] c w width_at_1_0
    by simp
qed

section \<open>Equal-power crossfade\<close>

lemma log10_2_lower: "301 / 1000 < log 10 (2::real)"
proof -
  have a: "ln ((10::real) ^ 301) = 301 * ln 10"
    by (subst ln_realpow) simp_all
  have b: "ln ((2::real) ^ 1000) = 1000 * ln 2"
    by (subst ln_realpow) simp_all
  have "ln ((10::real) ^ 301) < ln (2 ^ 1000)"
    by (subst ln_less_cancel_iff) simp_all
  then have "301 * ln (10::real) < 1000 * ln 2"
    unfolding a b .
  moreover have "0 < ln (10::real)" by simp
  ultimately show ?thesis
    by (simp add: log_def field_simps)
qed

lemma log10_2_upper: "log 10 (2::real) < 302 / 1000"
proof -
  have a: "ln ((10::real) ^ 302) = 302 * ln 10"
    by (subst ln_realpow) simp_all
  have b: "ln ((2::real) ^ 1000) = 1000 * ln 2"
    by (subst ln_realpow) simp_all
  have "ln ((2::real) ^ 1000) < ln (10 ^ 302)"
    by (subst ln_less_cancel_iff) simp_all
  then have "1000 * ln (2::real) < 302 * ln 10"
    unfolding a b .
  moreover have "0 < ln (10::real)" by simp
  ultimately show ?thesis
    by (simp add: log_def field_simps)
qed

lemma log10_half_sqrt2: "log 10 (sqrt 2 / 2) = - (log 10 2 / 2)"
proof -
  have "log 10 (sqrt 2 / 2) = log 10 (sqrt 2) - log 10 (2::real)"
    by (rule log_divide_pos) simp_all
  also have "log 10 (sqrt 2) = log 10 (2::real) / 2"
    by (simp add: log_def ln_sqrt)
  finally show ?thesis by simp
qed

lemma gains_at_0: "crossfaderGains 0 = (0, - 60)"
  by (simp add: crossfaderGains_def gainToDecibels_def Let_def)

lemma gains_at_1: "crossfaderGains 1 = (- 60, 0)"
  by (simp add: crossfaderGains_def gainToDecibels_def Let_def)

lemma gains_at_half: "crossfaderGains (1 / 2) = (- 10 * log 10 2, - 10 * log 10 2)"
proof -
  have c: "cos (1 / 2 * (pi / 2)) = sqrt 2 / 2"
    using cos_45 by (simp add: field_simps)
  have s: "sin (1 / 2 * (pi / 2)) = sqrt 2 / 2"
    using sin_45 by (simp add: field_simps)
  have l: "- 100 \<le> log 10 (sqrt 2 / 2) * 20"
    using log10_2_upper by (simp add: log10_half_sqrt2)
  have p: "\<not> sqrt 2 / 2 \<le> (0::real)"
    by simp
  show ?thesis
    unfolding crossfaderGains_def Let_def c s gainToDecibels_def
    using l p by (simp add: log10_half_sqrt2 max_def)
qed

lemma gains_near_minus_3_01:
  "\<bar>fst (crossfaderGains (1 / 2)) - (- 3.01)\<bar> < 0.01"
  "\<bar>snd (crossfaderGains (1 / 2)) - (- 3.01)\<bar> < 0.01"
  using log10_2_lower log10_2_upper by (simp_all add: gains_at_half abs_less_iff)

lemma cos_quarter_turn_pos:
  assumes "0 \<le> p" "p < 1"
  shows "0 < cos (p * (pi / 2))"
proof -
  have "p * (pi / 2) < pi / 2"
    using assms by simp
  moreover have "- (pi / 2) < p * (pi / 2)"
  proof -
    have "0 \<le> p * (pi / 2)" using assms by simp
    moreover have "- (pi / 2) < 0" by simp
    ultimately show ?thesis by linarith
  qed
  ultimately show ?thesis
    by (rule cos_gt_zero_pi [rotated])
qed

lemma sin_quarter_turn_pos:
  assumes "0 < p" "p \<le> 1"
  shows "0 < sin (p * (pi / 2))"
proof -
  have "0 < p * (pi / 2)"
    using assms by simp
  moreover have "p * (pi / 2) < pi"
  proof -
    have "p * (pi / 2) \<le> 1 * (pi / 2)"
      using assms by (intro mult_right_mono) simp_all
    moreover have "pi / 2 < pi" by simp
    ultimately show ?thesis by linarith
  qed
  ultimately show ?thesis
    by (rule sin_gt_zero)
qed

lemma gains_in_range:
  assumes "0 \<le> p" "p \<le> 1"
  shows "crossfaderGains p =
     (if p = 1 then - 60 else max (- 100) (20 * log 10 (cos (p * (pi / 2)))),
      if p = 0 then - 60 else max (- 100) (20 * log 10 (sin (p * (pi / 2)))))"
proof -
  have c: "cos (p * (pi / 2)) > 0" if "p \<noteq> 1"
    using that assms by (intro cos_quarter_turn_pos) simp_all
  have s: "sin (p * (pi / 2)) > 0" if "p \<noteq> 0"
    using that assms by (intro sin_quarter_turn_pos) simp_all
  show ?thesis
    using c s by (auto simp add: crossfaderGains_def gainToDecibels_def Let_def mult.commute)
qed

lemma updateCrossfader_volumes:
  assumes "volumeAndPan1 s \<noteq> None" "volumeAndPan2 s \<noteq> None"
  shows "updateCrossfader s =
     s\<lparr>volumeAndPan1 := Some (Some (fst (crossfaderGains (crossfaderValue s)))),
       volumeAndPan2 := Some (Some (snd (crossfaderGains (crossfaderValue s))))\<rparr>"
  using assms by (simp add: updateCrossfader_def setTrackVolume_def Let_def split: prod.splits)

text \<open>
  Claim C4. For a crossfader position \<open>p\<close> in \<open>[0, 1]\<close> the linear gains are
  \<open>cos (p * \<pi>/2)\<close> and \<open>sin (p * \<pi>/2)\<close>; each is converted to decibels
  (\<open>gainToDecibels\<close>: \<open>20 * log\<^sub>1\<^sub>0\<close>, not below its own -100), and a linear gain \<open>\<le> 0\<close> gives
  -60 dB instead. On \<open>[0, 1]\<close> the first gain is \<open>\<le> 0\<close> exactly at \<open>p = 1\<close> and the second
  exactly at \<open>p = 0\<close>; everywhere else the logarithm is taken of a positive gain. The gains are \<open>(0, -60)\<close> at 0, \<open>(-60, 0)\<close> at 1 and within 0.01 of
  \<open>(-3.01, -3.01)\<close> at 0.5. \<open>updateCrossfader\<close> hands the two values to the volume plugins
  of the two tracks.
\<close>

theorem crossfader_gains:
  assumes "0 \<le> p" "p \<le> 1"
  shows "crossfaderGains p =
       (if p = 1 then - 60 else max (- 100) (20 * log 10 (cos (p * (pi / 2)))),
        if p = 0 then - 60 else max (- 100) (20 * log 10 (sin (p * (pi / 2)))))
     \<and> (p \<noteq> 1 \<longrightarrow> 0 < cos (p * (pi / 2)))
     \<and> (p \<noteq> 0 \<longrightarrow> 0 < sin (p * (pi / 2)))
     \<and> crossfaderGains 0 = (0, - 60)
     \<and> crossfaderGains 1 = (- 60, 0)
     \<and> \<bar>fst (crossfaderGains (1 / 2)) - (- 3.01)\<bar> < 0.01
     \<and> \<bar>snd (crossfaderGains (1 / 2)) - (- 3.01)\<bar> < 0.01
     \<and> (volumeAndPan1 s \<noteq> None \<and> volumeAndPan2 s \<noteq> None \<and> crossfaderValue s = p \<longrightarrow>
          updateCrossfader s =
            s\<lparr>volumeAndPan1 := Some (Some (fst (crossfaderGains p))),
              volumeAndPan2 := Some (Some (snd (crossfaderGains p)))\<rparr>)"
proof (intro conjI impI)
  show "crossfaderGains p =
       (if p = 1 then - 60 else max (- 100) (20 * log 10 (cos (p * (pi / 2)))),
        if p = 0 then - 60 else max (- 100) (20 * log 10 (sin (p * (pi / 2)))))"
    by (rule gains_in_range [OF assms])
  show "crossfaderGains 0 = (0, - 60)"
    by (rule gains_at_0)
  show "crossfaderGains 1 = (- 60, 0)"
    by (rule gains_at_1)
  show "\<bar>fst (crossfaderGains (1 / 2)) - (- 3.01)\<bar> < 0.01"
    by (rule gains_near_minus_3_01(1))
  show "\<bar>snd (crossfaderGains (1 / 2)) - (- 3.01)\<bar> < 0.01"
    by (rule gains_near_minus_3_01(2))
next
  assume "p \<noteq> 1"
  then show "0 < cos (p * (pi / 2))"
    using assms by (intro cos_quarter_turn_pos) simp_all
next
  assume "p \<noteq> 0"
  then show "0 < sin (p * (pi / 2))"
    using assms by (intro sin_quarter_turn_pos) simp_all
next
  assume "volumeAndPan1 s \<noteq> None \<and> volumeAndPan2 s \<noteq> None \<and> crossfaderValue s = p"
  then show "updateCrossfader s =
            s\<lparr>volumeAndPan1 := Some (Some (fst (crossfaderGains p))),
              volumeAndPan2 := Some (Some (snd (crossfaderGains p)))\<rparr>"
    using updateCrossfader_volumes [of s] by blast
qed

theorem crossfader_gains_witness:
  "crossfaderGains (1 / 2) =
     (max (- 100) (20 * log 10 (cos (1 / 2 * (pi / 2)))),
      max (- 100) (20 * log 10 (sin (1 / 2 * (pi / 2)))))
   \<and> updateCrossfader constructed =
       constructed\<lparr>volumeAndPan1 := Some (Some 0), volumeAndPan2 := Some (Some (- 60))\<rparr>"
proof -
  have h: "(0::real) \<le> 1 / 2" "(1 / 2 :: real) \<le> 1" "(0::real) \<le> 0" "(0::real) \<le> 1"
    by simp_all
  have c: "volumeAndPan1 constructed \<noteq> None" "volumeAndPan2 constructed \<noteq> None"
    "crossfaderValue constructed = 0"
    by (simp_all add: constructed_def)
  have "crossfaderGains (1 / 2) =
     (max (- 100) (20 * log 10 (cos (1 / 2 * (pi / 2)))),
      max (- 100) (20 * log 10 (sin (1 / 2 * (pi / 2)))))"
    using crossfader_gains [OF h(1,2), of constructed] by simp
  moreover have "updateCrossfader constructed =
       constructed\<lparr>volumeAndPan1 := Some (Some 0), volumeAndPan2 := Some (Some (- 60))\<rparr>"
    using crossfader_gains [OF h(3,4), of constructed] c by simp
  ultimately show ?thesis ..
qed

end
